theory Spec2Isabelle
  imports Main
begin

section \<open>Service references\<close>

text \<open>
  The module \<^verbatim>\<open>packages/backend-plugin-api/src/services/system/types.ts\<close> declares
  service references (tokens) and the builder of service factories. A scope is one of
  the two string literals \<^verbatim>\<open>'root'\<close> and \<^verbatim>\<open>'plugin'\<close>.
\<close>

datatype scope = Root | Plugin

text \<open>A thrown JavaScript \<^verbatim>\<open>Error\<close>, with its message.\<close>

datatype error = Error string

text \<open>
  \<^verbatim>\<open>ServiceRefOptions\<close>: \<^verbatim>\<open>id\<close> is required, \<^verbatim>\<open>scope\<close> and \<^verbatim>\<open>defaultFactory\<close> are
  optional (\<open>None\<close> is the value \<^verbatim>\<open>undefined\<close> the destructuring reads for an omitted
  property). The default factory is never called by this module; its type is a
  parameter.
\<close>

record 'df ServiceRefOptions =
  sro_id :: string
  sro_scope :: "scope option"
  sro_defaultFactory :: "'df option"

text \<open>
  The object \<^verbatim>\<open>createServiceRef\<close> returns. Its data properties are \<^verbatim>\<open>id\<close>, \<^verbatim>\<open>scope\<close>,
  \<^verbatim>\<open>$$type\<close> and \<^verbatim>\<open>__defaultFactory\<close>. Its two function-valued members, the method
  \<^verbatim>\<open>toString\<close> and the getter \<^verbatim>\<open>T\<close>, are closures over the \<^verbatim>\<open>options\<close> argument:
  \<open>ref_options\<close> is that captured argument, and the members are the functions
  \<open>toString\<close> and \<open>get_T\<close> below.
\<close>

record 'df ServiceRef =
  ref_id :: string
  ref_scope :: scope
  ref_type :: string
  ref_defaultFactory :: "'df option"
  ref_options :: "'df ServiceRefOptions"

definition createServiceRef :: "'df ServiceRefOptions \<Rightarrow> 'df ServiceRef" where
  "createServiceRef options =
     \<lparr> ref_id = sro_id options,
       ref_scope = (case sro_scope options of None \<Rightarrow> Plugin | Some s \<Rightarrow> s),
       ref_type = ''@backstage/ServiceRef'',
       ref_defaultFactory = sro_defaultFactory options,
       ref_options = options \<rparr>"

text \<open>
  \<^verbatim>\<open>toString() { return `serviceRef{${options.id}}`; }\<close>: the id is read from the
  captured options, not from the object's own \<^verbatim>\<open>id\<close> property.
\<close>

definition toString :: "'df ServiceRef \<Rightarrow> string" where
  "toString r = ''serviceRef{'' @ sro_id (ref_options r) @ ''}''"

text \<open>
  \<^verbatim>\<open>get T() { throw new Error(`tried to read ServiceRef.T of ${this}`); }\<close>: a read of
  the property runs the getter, which renders the object with its \<^verbatim>\<open>toString\<close> and
  throws. The result type of a read is \<open>error + 'a\<close>, with \<open>Inl\<close> the thrown error and
  \<open>Inr\<close> a value of the service type.
\<close>

definition get_T :: "'df ServiceRef \<Rightarrow> error + 'a" where
  "get_T r = Inl (Error (''tried to read ServiceRef.T of '' @ toString r))"

section \<open>Values, promises and user functions\<close>

text \<open>
  The values that flow through a factory (resolved service instances, the root context)
  have type \<^verbatim>\<open>unknown\<close> in \<^verbatim>\<open>InternalServiceFactory\<close>. They are a type parameter \<open>'v\<close>,
  extended with JavaScript's \<^verbatim>\<open>undefined\<close>.
\<close>

datatype 'v jsval = JSUndefined | JSDefined 'v

text \<open>
  A promise is modelled by the state it settles in; \<open>Pending\<close> is a promise that never
  settles. A declared function returns \<^verbatim>\<open>TImpl | Promise<TImpl>\<close>: a plain value or a
  promise.
\<close>

datatype 'a promise = Resolved 'a | Rejected error | Pending

datatype 'a returned = Plain 'a | Promise "'a promise"

text \<open>
  The resolved dependency map (\<^verbatim>\<open>{ [key in string]: unknown }\<close>) lists each dependency
  name with its instance. A call passes its arguments by position: the dependency map
  and the root context are the two kinds of argument this module passes.
\<close>

type_synonym 'v instances = "(string \<times> 'v jsval) list"

datatype 'v arg = DepsArg "'v instances" | ContextArg "'v jsval"

text \<open>
  A function supplied by the caller may have side effects and may throw. It is a
  function of its argument list and of the state of the world \<open>'w\<close>, and returns its
  completion (\<open>Inl\<close> a thrown error) with the new state.
\<close>

type_synonym ('w, 'v) jsfun = "'v arg list \<Rightarrow> 'w \<Rightarrow> (error + 'v jsval returned) \<times> 'w"

text \<open>
  An \<^verbatim>\<open>async\<close> arrow function whose body is one expression: the promise it returns
  is rejected when the expression throws, adopts the promise the expression evaluates
  to, and is resolved with a plain value otherwise.
\<close>

definition async :: "error + 'a returned \<Rightarrow> 'a promise" where
  "async r = (case r of
      Inl e \<Rightarrow> Rejected e
    | Inr (Plain v) \<Rightarrow> Resolved v
    | Inr (Promise p) \<Rightarrow> p)"

text \<open>
  An optional method of an object literal. The code tests the property with
  \<^verbatim>\<open>'createRootContext' in c\<close> and calls it with \<^verbatim>\<open>c?.createRootContext?.(deps)\<close>, so
  three states are told apart: the key is not in the object, the key is in the object
  with the value \<^verbatim>\<open>undefined\<close>, and the key holds a function.
\<close>

datatype 'f optional_method = Omitted | SetUndefined | Provided 'f

section \<open>Service factories\<close>

datatype initialization = Always | Lazy

text \<open>
  The configuration object: \<^verbatim>\<open>RootServiceFactoryOptions\<close> or
  \<^verbatim>\<open>PluginServiceFactoryOptions\<close>. At run time the two are told apart only by
  \<^verbatim>\<open>service.scope\<close>, so one record holds both. \<open>conf_initialization\<close> is what a read
  of \<^verbatim>\<open>c.initialization\<close> gives (\<open>None\<close> for \<^verbatim>\<open>undefined\<close>); \<open>conf_deps\<close> lists the
  properties of the \<^verbatim>\<open>deps\<close> object.
\<close>

record ('w, 'v, 'df) ServiceFactoryOptions =
  conf_initialization :: "initialization option"
  conf_service :: "'df ServiceRef"
  conf_deps :: "(string \<times> 'df ServiceRef) list"
  conf_createRootContext :: "('w, 'v) jsfun optional_method"
  conf_factory :: "('w, 'v) jsfun"

text \<open>
  \<^verbatim>\<open>InternalServiceFactory\<close>, the descriptor. \<open>isf_type\<close> is the property \<^verbatim>\<open>$$type\<close>;
  \<open>isf_createRootContext\<close> is \<open>None\<close> when the object has no such property.
\<close>

record ('w, 'v, 'df) InternalServiceFactory =
  isf_type :: string
  isf_version :: string
  isf_service :: "'df ServiceRef"
  isf_initialization :: "initialization option"
  isf_deps :: "(string \<times> 'df ServiceRef) list"
  isf_createRootContext :: "('v instances \<Rightarrow> 'w \<Rightarrow> 'v jsval promise \<times> 'w) option"
  isf_factory :: "'v instances \<Rightarrow> 'v jsval \<Rightarrow> 'w \<Rightarrow> 'v jsval promise \<times> 'w"

text \<open>
  The argument of \<^verbatim>\<open>createServiceFactory\<close>: a configuration object, or a function from
  the caller's options \<open>'o\<close> to a configuration object (\<^verbatim>\<open>typeof options === 'function'\<close>
  tells them apart).
\<close>

datatype ('o, 'w, 'v, 'df) factory_declaration =
    ConfigObject "('w, 'v, 'df) ServiceFactoryOptions"
  | ConfigFunction "'o \<Rightarrow> 'w \<Rightarrow> (error + ('w, 'v, 'df) ServiceFactoryOptions) \<times> 'w"

text \<open>
  \<^verbatim>\<open>const configCallback = typeof options === 'function' ? options : () => options;\<close>
\<close>

definition configCallback ::
  "('o, 'w, 'v, 'df) factory_declaration \<Rightarrow>
   'o \<Rightarrow> 'w \<Rightarrow> (error + ('w, 'v, 'df) ServiceFactoryOptions) \<times> 'w" where
  "configCallback options = (case options of
      ConfigFunction f \<Rightarrow> f
    | ConfigObject c \<Rightarrow> (\<lambda>opts w. (Inr c, w)))"

text \<open>
  The inner arrow function \<^verbatim>\<open>factory\<close>. It evaluates the configuration callback on the
  caller's options and branches on \<^verbatim>\<open>anyConf.service.scope === 'root'\<close>. The three
  \<^verbatim>\<open>async\<close> arrow functions of the two object literals run the declared function when
  they are called, and wrap its completion in a promise.
\<close>

definition factory ::
  "('o, 'w, 'v, 'df) factory_declaration \<Rightarrow>
   'o \<Rightarrow> 'w \<Rightarrow> (error + ('w, 'v, 'df) InternalServiceFactory) \<times> 'w" where
  "factory options opts w = (case configCallback options opts w of
      (Inl e, w') \<Rightarrow> (Inl e, w')
    | (Inr anyConf, w') \<Rightarrow>
        (Inr (if ref_scope (conf_service anyConf) = Root then
           \<lparr> isf_type = ''@backstage/BackendFeature'',
             isf_version = ''v1'',
             isf_service = conf_service anyConf,
             isf_initialization = conf_initialization anyConf,
             isf_deps = conf_deps anyConf,
             isf_createRootContext = None,
             isf_factory = (\<lambda>deps ctx u.
               case conf_factory anyConf [DepsArg deps] u of (r, u') \<Rightarrow> (async r, u')) \<rparr>
         else
           \<lparr> isf_type = ''@backstage/BackendFeature'',
             isf_version = ''v1'',
             isf_service = conf_service anyConf,
             isf_initialization = conf_initialization anyConf,
             isf_deps = conf_deps anyConf,
             isf_createRootContext = (case conf_createRootContext anyConf of
                 Omitted \<Rightarrow> None
               | SetUndefined \<Rightarrow> Some (\<lambda>deps u. (Resolved JSUndefined, u))
               | Provided f \<Rightarrow> Some (\<lambda>deps u.
                   case f [DepsArg deps] u of (r, u') \<Rightarrow> (async r, u'))),
             isf_factory = (\<lambda>deps ctx u.
               case conf_factory anyConf [DepsArg deps, ContextArg ctx] u of
                 (r, u') \<Rightarrow> (async r, u')) \<rparr>), w'))"

text \<open>
  The function \<^verbatim>\<open>createServiceFactory\<close> returns: the arrow function above, with the
  property \<^verbatim>\<open>$$type\<close> assigned to it.
\<close>

record ('o, 'w, 'v, 'df) ServiceFactoryBuilder =
  builder_call :: "'o \<Rightarrow> 'w \<Rightarrow> (error + ('w, 'v, 'df) InternalServiceFactory) \<times> 'w"
  builder_type :: string

text \<open>
  \<^verbatim>\<open>createServiceFactory\<close> itself, as a step on the state of the world: it returns the
  builder and the state it leaves.
\<close>

definition createServiceFactory ::
  "('o, 'w, 'v, 'df) factory_declaration \<Rightarrow> 'w \<Rightarrow> ('o, 'w, 'v, 'df) ServiceFactoryBuilder \<times> 'w" where
  "createServiceFactory options w =
     (\<lparr> builder_call = factory options,
        builder_type = ''@backstage/BackendFeatureFactory'' \<rparr>, w)"

section \<open>The default initialization strategy\<close>

text \<open>
  Modelled from the spec: the strategy a consumer of a descriptor uses when the
  descriptor's \<^verbatim>\<open>initialization\<close> is \<^verbatim>\<open>undefined\<close>. The code that applies the default is
  not part of this module; the spec (section 4.5) and the comments on the
  \<^verbatim>\<open>initialization\<close> option say: "Service factories for root scoped services use
  `always` as the default, while plugin scoped services use `lazy`."
\<close>

definition initializationStrategy :: "('w, 'v, 'df) InternalServiceFactory \<Rightarrow> initialization" where
  "initializationStrategy d = (case isf_initialization d of
      Some i \<Rightarrow> i
    | None \<Rightarrow> (if ref_scope (isf_service d) = Root then Always else Lazy))"

section \<open>Example declarations\<close>

text \<open>
  Concrete declarations on which the theorems below are evaluated. The state of the
  world is a counter of the evaluations of caller-supplied functions, values are
  strings, and the caller's options are an optional initialization strategy.

  A root-scoped reference \<^verbatim>\<open>db\<close> whose factory has no dependencies and returns a pool.
\<close>

definition db_ref :: "unit ServiceRef" where
  "db_ref = createServiceRef
     \<lparr> sro_id = ''db'', sro_scope = Some Root, sro_defaultFactory = None \<rparr>"

definition new_Pool :: "(nat, string) jsfun" where
  "new_Pool args n = (Inr (Plain (JSDefined ''Pool'')), Suc n)"

definition db_conf :: "(nat, string, unit) ServiceFactoryOptions" where
  "db_conf =
     \<lparr> conf_initialization = None,
       conf_service = db_ref,
       conf_deps = [],
       conf_createRootContext = Omitted,
       conf_factory = new_Pool \<rparr>"

text \<open>
  A plugin-scoped reference \<^verbatim>\<open>logger\<close> (the scope is omitted) whose declaration has a
  root-context function returning a shared stream, and whose factory builds a logger
  from the context it is given.
\<close>

definition logger_ref :: "unit ServiceRef" where
  "logger_ref = createServiceRef
     \<lparr> sro_id = ''logger'', sro_scope = None, sro_defaultFactory = None \<rparr>"

definition sharedStream :: "(nat, string) jsfun" where
  "sharedStream args n = (Inr (Plain (JSDefined ''sharedStream'')), Suc n)"

definition new_Logger :: "(nat, string) jsfun" where
  "new_Logger args n = (case args of
      [DepsArg deps, ContextArg (JSDefined ctx)] \<Rightarrow>
        (Inr (Plain (JSDefined (''Logger('' @ ctx @ '')''))), Suc n)
    | _ \<Rightarrow> (Inl (Error ''no stream''), Suc n))"

definition logger_conf :: "(nat, string, unit) ServiceFactoryOptions" where
  "logger_conf =
     \<lparr> conf_initialization = Some Always,
       conf_service = logger_ref,
       conf_deps = [(''db'', db_ref)],
       conf_createRootContext = Provided sharedStream,
       conf_factory = new_Logger \<rparr>"

text \<open>
  The same two declarations in the parameterized shape: a function of the caller's
  options that counts its evaluations and takes the strategy from the options.
\<close>

definition strategy_of :: "initialization jsval \<Rightarrow> initialization option" where
  "strategy_of opts = (case opts of JSUndefined \<Rightarrow> None | JSDefined i \<Rightarrow> Some i)"

definition db_conf_fn ::
  "initialization jsval \<Rightarrow> nat \<Rightarrow> (error + (nat, string, unit) ServiceFactoryOptions) \<times> nat" where
  "db_conf_fn opts n = (Inr (db_conf \<lparr> conf_initialization := strategy_of opts \<rparr>), Suc n)"

definition logger_conf_fn ::
  "initialization jsval \<Rightarrow> nat \<Rightarrow> (error + (nat, string, unit) ServiceFactoryOptions) \<times> nat" where
  "logger_conf_fn opts n = (Inr (logger_conf \<lparr> conf_initialization := strategy_of opts \<rparr>), Suc n)"

text \<open>
  A plugin-scoped declaration written with \<^verbatim>\<open>createRootContext: undefined\<close>, and a
  root-scoped declaration that lists the plugin-scoped \<^verbatim>\<open>logger\<close> among its dependencies.
\<close>

definition logger_conf_undefined_context :: "(nat, string, unit) ServiceFactoryOptions" where
  "logger_conf_undefined_context = logger_conf \<lparr> conf_createRootContext := SetUndefined \<rparr>"


section \<open>Theorems about service references\<close>

lemma createServiceRef_simps:
  "ref_id (createServiceRef options) = sro_id options"
  "ref_scope (createServiceRef options) = (case sro_scope options of None \<Rightarrow> Plugin | Some s \<Rightarrow> s)"
  "ref_type (createServiceRef options) = ''@backstage/ServiceRef''"
  "ref_defaultFactory (createServiceRef options) = sro_defaultFactory options"
  "ref_options (createServiceRef options) = options"
  by (simp_all add: createServiceRef_def)

lemma example_ref_scopes:
  "ref_scope db_ref = Root"
  "ref_scope logger_ref = Plugin"
  by (simp_all add: db_ref_def logger_ref_def createServiceRef_simps)

text \<open>
  Claim C7. For every options object with a non-empty id, the reference returned by
  \<open>createServiceRef\<close> has the given id; its scope is the given scope when the options
  carry one, and \<open>Plugin\<close> when the scope is omitted.
\<close>

theorem createServiceRef_id_scope:
  assumes "sro_id options \<noteq> []"
  shows "ref_id (createServiceRef options) = sro_id options
    \<and> (\<forall>s. sro_scope options = Some s \<longrightarrow> ref_scope (createServiceRef options) = s)
    \<and> (sro_scope options = None \<longrightarrow> ref_scope (createServiceRef options) = Plugin)"
  by (simp add: createServiceRef_simps)

theorem createServiceRef_id_scope_witness:
  "ref_id (createServiceRef
      \<lparr> sro_id = ''db'', sro_scope = Some Root, sro_defaultFactory = None :: unit option \<rparr>) = ''db''
   \<and> ref_scope (createServiceRef
      \<lparr> sro_id = ''db'', sro_scope = Some Root, sro_defaultFactory = None :: unit option \<rparr>) = Root
   \<and> ref_id (createServiceRef
      \<lparr> sro_id = ''logger'', sro_scope = None, sro_defaultFactory = None :: unit option \<rparr>) = ''logger''
   \<and> ref_scope (createServiceRef
      \<lparr> sro_id = ''logger'', sro_scope = None, sro_defaultFactory = None :: unit option \<rparr>) = Plugin"
  using
    createServiceRef_id_scope [of
      "\<lparr> sro_id = ''db'', sro_scope = Some Root, sro_defaultFactory = None :: unit option \<rparr>"]
    createServiceRef_id_scope [of
      "\<lparr> sro_id = ''logger'', sro_scope = None, sro_defaultFactory = None :: unit option \<rparr>"]
  by simp

text \<open>
  Claim C8. For every reference produced by \<open>createServiceRef\<close>, a read of its property
  \<^verbatim>\<open>T\<close> throws an error (whose message names the reference); no read yields a value.
\<close>

theorem createServiceRef_T_throws:
  "get_T (createServiceRef options) =
     Inl (Error (''tried to read ServiceRef.T of serviceRef{'' @ sro_id options @ ''}''))
   \<and> (\<nexists>v. get_T (createServiceRef options) = Inr v)"
  by (simp add: get_T_def toString_def createServiceRef_simps)

text \<open>
  The string form of the reference with id \<^verbatim>\<open>db\<close> is \<^verbatim>\<open>serviceRef{db}\<close>, which is not
  the string \<^verbatim>\<open>token{db}\<close>.
\<close>

theorem toString_not_token_counterexample:
  "toString (createServiceRef
      \<lparr> sro_id = ''db'', sro_scope = Some Root, sro_defaultFactory = None :: unit option \<rparr>)
   \<noteq> ''token{'' @ ''db'' @ ''}''"
  by (simp add: toString_def createServiceRef_simps)

text \<open>
  Claim C9, amended. For every reference produced by \<open>createServiceRef\<close> from options
  with id \<open>i\<close>, the string form of the reference is \<^verbatim>\<open>serviceRef{\<close> followed by \<open>i\<close> and
  \<^verbatim>\<open>}\<close>.
\<close>

theorem createServiceRef_toString:
  "toString (createServiceRef options) = ''serviceRef{'' @ sro_id options @ ''}''"
  by (simp add: toString_def createServiceRef_simps)

section \<open>Theorems about the factory builder\<close>

lemma builder_call_createServiceFactory:
  "builder_call (fst (createServiceFactory options w0)) = factory options"
  by (simp add: createServiceFactory_def)

lemma configCallback_simps:
  "configCallback (ConfigObject c) opts w = (Inr c, w)"
  "configCallback (ConfigFunction f) opts w = f opts w"
  by (simp_all add: configCallback_def)

lemma factory_throws:
  assumes "configCallback options opts w = (Inl e, w')"
  shows "factory options opts w = (Inl e, w')"
  using assms by (simp add: factory_def)

lemma factory_root:
  assumes "configCallback options opts w = (Inr c, w')"
    and "ref_scope (conf_service c) = Root"
  shows "factory options opts w =
    (Inr \<lparr> isf_type = ''@backstage/BackendFeature'',
            isf_version = ''v1'',
            isf_service = conf_service c,
            isf_initialization = conf_initialization c,
            isf_deps = conf_deps c,
            isf_createRootContext = None,
            isf_factory = (\<lambda>deps ctx u.
              case conf_factory c [DepsArg deps] u of (r, u') \<Rightarrow> (async r, u')) \<rparr>, w')"
  using assms by (simp add: factory_def)

lemma factory_plugin:
  assumes "configCallback options opts w = (Inr c, w')"
    and "ref_scope (conf_service c) = Plugin"
  shows "factory options opts w =
    (Inr \<lparr> isf_type = ''@backstage/BackendFeature'',
            isf_version = ''v1'',
            isf_service = conf_service c,
            isf_initialization = conf_initialization c,
            isf_deps = conf_deps c,
            isf_createRootContext = (case conf_createRootContext c of
                Omitted \<Rightarrow> None
              | SetUndefined \<Rightarrow> Some (\<lambda>deps u. (Resolved JSUndefined, u))
              | Provided f \<Rightarrow> Some (\<lambda>deps u.
                  case f [DepsArg deps] u of (r, u') \<Rightarrow> (async r, u'))),
            isf_factory = (\<lambda>deps ctx u.
              case conf_factory c [DepsArg deps, ContextArg ctx] u of
                (r, u') \<Rightarrow> (async r, u')) \<rparr>, w')"
  using assms by (simp add: factory_def)

lemma factory_fields:
  assumes "configCallback options opts w = (Inr c, w')"
  shows "\<exists>d. factory options opts w = (Inr d, w')
    \<and> isf_type d = ''@backstage/BackendFeature''
    \<and> isf_version d = ''v1''
    \<and> isf_service d = conf_service c
    \<and> isf_deps d = conf_deps c
    \<and> isf_initialization d = conf_initialization c"
proof (cases "ref_scope (conf_service c)")
  case Root
  from factory_root [OF assms Root] show ?thesis by simp
next
  case Plugin
  from factory_plugin [OF assms Plugin] show ?thesis by simp
qed

lemma example_conf_simps:
  "conf_service db_conf = db_ref"
  "conf_deps db_conf = []"
  "conf_initialization db_conf = None"
  "conf_createRootContext db_conf = Omitted"
  "conf_factory db_conf = new_Pool"
  "conf_service logger_conf = logger_ref"
  "conf_deps logger_conf = [(''db'', db_ref)]"
  "conf_initialization logger_conf = Some Always"
  "conf_createRootContext logger_conf = Provided sharedStream"
  "conf_factory logger_conf = new_Logger"
  by (simp_all add: db_conf_def logger_conf_def)

text \<open>
  Claim C1. For a declaration of any of the four shapes, invoking the builder returned
  by \<open>createServiceFactory\<close> produces a descriptor whose service, dependency map and
  initialization are those of the resolved configuration object: the object itself for
  a fixed declaration (of either scope), and the object the function returns on the
  caller's options for a parameterized declaration (of either scope).
\<close>

theorem createServiceFactory_preserves_fields:
  "(\<exists>d. builder_call (fst (createServiceFactory (ConfigObject c) w0)) opts w = (Inr d, w)
      \<and> isf_service d = conf_service c
      \<and> isf_deps d = conf_deps c
      \<and> isf_initialization d = conf_initialization c)
   \<and> (f opts w = (Inr c, w') \<longrightarrow>
      (\<exists>d. builder_call (fst (createServiceFactory (ConfigFunction f) w0)) opts w = (Inr d, w')
        \<and> isf_service d = conf_service c
        \<and> isf_deps d = conf_deps c
        \<and> isf_initialization d = conf_initialization c))"
proof (intro conjI impI)
  have "configCallback (ConfigObject c) opts w = (Inr c, w)"
    by (simp add: configCallback_simps)
  from factory_fields [OF this]
  show "\<exists>d. builder_call (fst (createServiceFactory (ConfigObject c) w0)) opts w = (Inr d, w)
      \<and> isf_service d = conf_service c
      \<and> isf_deps d = conf_deps c
      \<and> isf_initialization d = conf_initialization c"
    by (auto simp add: builder_call_createServiceFactory)
next
  assume "f opts w = (Inr c, w')"
  then have "configCallback (ConfigFunction f) opts w = (Inr c, w')"
    by (simp add: configCallback_simps)
  from factory_fields [OF this]
  show "\<exists>d. builder_call (fst (createServiceFactory (ConfigFunction f) w0)) opts w = (Inr d, w')
      \<and> isf_service d = conf_service c
      \<and> isf_deps d = conf_deps c
      \<and> isf_initialization d = conf_initialization c"
    by (auto simp add: builder_call_createServiceFactory)
qed

theorem createServiceFactory_preserves_fields_witness:
  "(\<exists>d. builder_call (fst (createServiceFactory (ConfigObject db_conf) 0))
          (JSUndefined :: initialization jsval) 0 = (Inr d, 0)
      \<and> isf_service d = db_ref \<and> isf_deps d = [] \<and> isf_initialization d = None)
   \<and> (\<exists>d. builder_call (fst (createServiceFactory (ConfigFunction logger_conf_fn) 0))
          (JSDefined Lazy) 0 = (Inr d, 1)
      \<and> isf_service d = logger_ref \<and> isf_deps d = [(''db'', db_ref)]
      \<and> isf_initialization d = Some Lazy)"
proof -
  have fixed: "\<exists>d. builder_call (fst (createServiceFactory (ConfigObject db_conf) 0))
          (JSUndefined :: initialization jsval) 0
        = (Inr d, 0)
      \<and> isf_service d = db_ref \<and> isf_deps d = [] \<and> isf_initialization d = None"
    using createServiceFactory_preserves_fields [where c = db_conf and ?w0.0 = 0
      and opts = JSUndefined and w = 0 and f = db_conf_fn and w' = 1, THEN conjunct1]
    by (simp add: example_conf_simps)
  have resolved: "logger_conf_fn (JSDefined Lazy) 0
      = (Inr (logger_conf \<lparr> conf_initialization := Some Lazy \<rparr>), 1)"
    by (simp add: logger_conf_fn_def strategy_of_def)
  have parameterized: "\<exists>d. builder_call (fst (createServiceFactory (ConfigFunction logger_conf_fn) 0))
          (JSDefined Lazy) 0 = (Inr d, 1)
      \<and> isf_service d = logger_ref \<and> isf_deps d = [(''db'', db_ref)]
      \<and> isf_initialization d = Some Lazy"
    using createServiceFactory_preserves_fields [where
      c = "logger_conf \<lparr> conf_initialization := Some Lazy \<rparr>" and ?w0.0 = 0
      and opts = "JSDefined Lazy" and w = 0 and f = logger_conf_fn and w' = 1,
      THEN conjunct2, THEN mp, OF resolved]
    by (simp add: example_conf_simps)
  from fixed parameterized show ?thesis by (rule conjI)
qed

text \<open>
  Claim C3. For every declaration whose resolved configuration has a root-scoped
  service, the descriptor has no root-context constructor, and its instance constructor
  calls the declared factory with one argument, the resolved dependency map, whatever
  context it is given; the promise it returns settles as the declared factory's
  completion does.
\<close>

theorem createServiceFactory_root:
  assumes "configCallback options opts w = (Inr c, w')"
    and "ref_scope (conf_service c) = Root"
  shows "\<exists>d. builder_call (fst (createServiceFactory options w0)) opts w = (Inr d, w')
    \<and> isf_createRootContext d = None
    \<and> (\<forall>deps ctx u. isf_factory d deps ctx u =
          (case conf_factory c [DepsArg deps] u of (r, u') \<Rightarrow> (async r, u')))"
  using factory_root [OF assms]
  by (simp add: builder_call_createServiceFactory)

theorem createServiceFactory_root_witness:
  "\<exists>d. builder_call (fst (createServiceFactory (ConfigObject db_conf) 0))
        (JSUndefined :: initialization jsval) 0 = (Inr d, 0)
    \<and> isf_createRootContext d = None
    \<and> isf_factory d [] (JSDefined ''ignored'') 0 = (Resolved (JSDefined ''Pool''), 1)"
proof -
  have resolved: "configCallback (ConfigObject db_conf) (JSUndefined :: initialization jsval) 0
      = (Inr db_conf, 0)"
    by (simp add: configCallback_simps)
  have root: "ref_scope (conf_service db_conf) = Root"
    by (simp add: example_conf_simps example_ref_scopes)
  from createServiceFactory_root [OF resolved root, of 0]
  show ?thesis
    by (auto simp add: example_conf_simps new_Pool_def async_def)
qed

text \<open>
  Claim C10. For every declaration, the builder returned by \<open>createServiceFactory\<close>
  carries the tag \<^verbatim>\<open>@backstage/BackendFeatureFactory\<close>, and every descriptor it produces,
  for either scope, carries the tag \<^verbatim>\<open>@backstage/BackendFeature\<close> and the version \<^verbatim>\<open>v1\<close>;
  the two tags differ.
\<close>

theorem createServiceFactory_tags:
  "builder_type (fst (createServiceFactory options w0)) = ''@backstage/BackendFeatureFactory''
   \<and> (\<forall>opts w d w'. builder_call (fst (createServiceFactory options w0)) opts w = (Inr d, w') \<longrightarrow>
        isf_type d = ''@backstage/BackendFeature''
        \<and> isf_version d = ''v1''
        \<and> isf_type d \<noteq> builder_type (fst (createServiceFactory options w0)))"
proof -
  have tag: "builder_type (fst (createServiceFactory options w0)) = ''@backstage/BackendFeatureFactory''"
    by (simp add: createServiceFactory_def)
  have descriptor: "isf_type d = ''@backstage/BackendFeature'' \<and> isf_version d = ''v1''"
    if "builder_call (fst (createServiceFactory options w0)) opts w = (Inr d, w')"
    for opts w d w'
  proof -
    from that have produced: "factory options opts w = (Inr d, w')"
      by (simp add: builder_call_createServiceFactory)
    obtain r w'' where cb: "configCallback options opts w = (r, w'')"
      by (cases "configCallback options opts w")
    show ?thesis
    proof (cases r)
      case (Inl e)
      with cb produced factory_throws [of options opts w e w''] show ?thesis by simp
    next
      case (Inr c)
      with cb factory_fields [of options opts w c w''] produced show ?thesis by auto
    qed
  qed
  from tag descriptor show ?thesis by simp
qed

theorem createServiceFactory_tags_witness:
  "builder_type (fst (createServiceFactory (ConfigFunction logger_conf_fn) 0))
     = ''@backstage/BackendFeatureFactory''
   \<and> (\<exists>d. builder_call (fst (createServiceFactory (ConfigFunction logger_conf_fn) 0))
          JSUndefined 0 = (Inr d, 1)
        \<and> isf_type d = ''@backstage/BackendFeature'' \<and> isf_version d = ''v1'')"
proof -
  have resolved: "configCallback (ConfigFunction logger_conf_fn) JSUndefined 0
      = (Inr (logger_conf \<lparr> conf_initialization := None \<rparr>), 1)"
    by (simp add: configCallback_simps logger_conf_fn_def strategy_of_def)
  from factory_fields [OF resolved] obtain d where
    produced: "builder_call (fst (createServiceFactory (ConfigFunction logger_conf_fn) 0))
      JSUndefined 0 = (Inr d, 1)"
    by (auto simp add: builder_call_createServiceFactory)
  from createServiceFactory_tags [of "ConfigFunction logger_conf_fn" 0] produced
  show ?thesis by blast
qed

text \<open>
  A plugin-scoped declaration written with \<^verbatim>\<open>createRootContext: undefined\<close> provides no
  root-context function, yet its descriptor contains one: a function that resolves to
  \<^verbatim>\<open>undefined\<close>.
\<close>

theorem createRootContext_undefined_counterexample:
  "\<exists>d g. builder_call (fst (createServiceFactory (ConfigObject logger_conf_undefined_context) 0))
        (JSUndefined :: initialization jsval) 0 = (Inr d, 0)
    \<and> ref_scope (conf_service logger_conf_undefined_context) = Plugin
    \<and> (\<nexists>f. conf_createRootContext logger_conf_undefined_context = Provided f)
    \<and> isf_createRootContext d = Some g
    \<and> g [] 0 = (Resolved JSUndefined, 0)"
  by (simp add: builder_call_createServiceFactory factory_def configCallback_simps
      logger_conf_undefined_context_def example_conf_simps example_ref_scopes)

text \<open>
  Claim C2, amended. For every declaration whose resolved configuration has a
  plugin-scoped service, the descriptor contains a \<^verbatim>\<open>createRootContext\<close> function if and
  only if the configuration object has a \<^verbatim>\<open>createRootContext\<close> property, whatever the
  property holds. When the property is omitted, none is synthesized. When the property
  holds a function, the descriptor's function calls it with the dependency map and
  settles as it completes. When the property is present with the value \<^verbatim>\<open>undefined\<close>, the
  descriptor's function resolves to \<^verbatim>\<open>undefined\<close>.
\<close>

theorem createServiceFactory_plugin_createRootContext:
  assumes "configCallback options opts w = (Inr c, w')"
    and "ref_scope (conf_service c) = Plugin"
  shows "\<exists>d. builder_call (fst (createServiceFactory options w0)) opts w = (Inr d, w')
    \<and> ((isf_createRootContext d = None) = (conf_createRootContext c = Omitted))
    \<and> (\<forall>f. conf_createRootContext c = Provided f \<longrightarrow>
          (\<exists>g. isf_createRootContext d = Some g
            \<and> (\<forall>deps u. g deps u = (case f [DepsArg deps] u of (r, u') \<Rightarrow> (async r, u')))))
    \<and> (conf_createRootContext c = SetUndefined \<longrightarrow>
          (\<exists>g. isf_createRootContext d = Some g
            \<and> (\<forall>deps u. g deps u = (Resolved JSUndefined, u))))"
  using factory_plugin [OF assms]
  by (cases "conf_createRootContext c") (simp_all add: builder_call_createServiceFactory)

theorem createServiceFactory_plugin_createRootContext_witness:
  "(\<exists>d g. builder_call (fst (createServiceFactory (ConfigObject logger_conf) 0))
        (JSUndefined :: initialization jsval) 0 = (Inr d, 0)
      \<and> isf_createRootContext d = Some g
      \<and> g [] 0 = (Resolved (JSDefined ''sharedStream''), 1))
   \<and> (\<exists>d. builder_call (fst (createServiceFactory
          (ConfigObject (logger_conf \<lparr> conf_createRootContext := Omitted \<rparr>)) 0))
        (JSUndefined :: initialization jsval) 0 = (Inr d, 0)
      \<and> isf_createRootContext d = None)"
proof -
  have provided: "configCallback (ConfigObject logger_conf) (JSUndefined :: initialization jsval) 0
      = (Inr logger_conf, 0)"
    by (simp add: configCallback_simps)
  have omitted: "configCallback (ConfigObject (logger_conf \<lparr> conf_createRootContext := Omitted \<rparr>))
      (JSUndefined :: initialization jsval) 0
      = (Inr (logger_conf \<lparr> conf_createRootContext := Omitted \<rparr>), 0)"
    by (simp add: configCallback_simps)
  have plugin: "ref_scope (conf_service logger_conf) = Plugin"
    "ref_scope (conf_service (logger_conf \<lparr> conf_createRootContext := Omitted \<rparr>)) = Plugin"
    by (simp_all add: example_conf_simps example_ref_scopes)
  from createServiceFactory_plugin_createRootContext [OF provided plugin(1), of 0]
  have first: "\<exists>d g. builder_call (fst (createServiceFactory (ConfigObject logger_conf) 0))
        (JSUndefined :: initialization jsval) 0 = (Inr d, 0)
      \<and> isf_createRootContext d = Some g
      \<and> g [] 0 = (Resolved (JSDefined ''sharedStream''), 1)"
    by (auto simp add: example_conf_simps sharedStream_def async_def)
  from createServiceFactory_plugin_createRootContext [OF omitted plugin(2), of 0]
  have second: "\<exists>d. builder_call (fst (createServiceFactory
          (ConfigObject (logger_conf \<lparr> conf_createRootContext := Omitted \<rparr>)) 0))
        (JSUndefined :: initialization jsval) 0 = (Inr d, 0)
      \<and> isf_createRootContext d = None"
    by auto
  from first second show ?thesis by (rule conjI)
qed




text \<open>
  Claim C5. For a declaration whose resolved configuration has a root-scoped service
  and specifies no initialization strategy, invoking the builder (with any options,
  also none) yields a descriptor whose service has scope \<open>Root\<close>, whose initialization
  is left unset, so that its strategy is the root default \<open>Always\<close>, and which has no
  root-context constructor.
\<close>

theorem createServiceFactory_root_default_initialization:
  assumes "configCallback options opts w = (Inr c, w')"
    and "ref_scope (conf_service c) = Root"
    and "conf_initialization c = None"
  shows "\<exists>d. builder_call (fst (createServiceFactory options w0)) opts w = (Inr d, w')
    \<and> ref_scope (isf_service d) = Root
    \<and> isf_initialization d = None
    \<and> initializationStrategy d = Always
    \<and> isf_createRootContext d = None"
  using factory_root [OF assms(1,2)] assms(2,3)
  by (simp add: builder_call_createServiceFactory initializationStrategy_def)

theorem createServiceFactory_root_default_initialization_witness:
  "\<exists>d. builder_call (fst (createServiceFactory (ConfigObject db_conf) 0))
        (JSUndefined :: initialization jsval) 0 = (Inr d, 0)
    \<and> ref_scope (isf_service d) = Root
    \<and> isf_initialization d = None
    \<and> initializationStrategy d = Always
    \<and> isf_createRootContext d = None"
proof -
  have resolved: "configCallback (ConfigObject db_conf) (JSUndefined :: initialization jsval) 0
      = (Inr db_conf, 0)"
    by (simp add: configCallback_simps)
  have root: "ref_scope (conf_service db_conf) = Root"
    by (simp add: example_conf_simps example_ref_scopes)
  have unset: "conf_initialization db_conf = None"
    by (simp add: example_conf_simps)
  from createServiceFactory_root_default_initialization [OF resolved root unset, of 0]
  show ?thesis .
qed

text \<open>
  Claim C6. Calling \<open>createServiceFactory\<close> on a parameterized declaration leaves the
  state of the world as it was, whatever the declared function does to it: the function
  is not evaluated. Invoking the returned builder evaluates the function on the
  caller's options: the state after the invocation is the state the function leaves,
  and the builder fails exactly when the function throws and otherwise returns a
  descriptor of the service of the configuration the function returned. A fixed
  declaration gives the builder of the function that ignores its argument and returns
  the declared object.
\<close>

theorem createServiceFactory_defers_evaluation:
  fixes f :: "'o \<Rightarrow> 'w \<Rightarrow> (error + ('w, 'v, 'df) ServiceFactoryOptions) \<times> 'w"
  shows "snd (createServiceFactory (ConfigFunction f) w) = w
   \<and> snd (builder_call (fst (createServiceFactory (ConfigFunction f) w)) opts u) = snd (f opts u)
   \<and> map_sum id isf_service
        (fst (builder_call (fst (createServiceFactory (ConfigFunction f) w)) opts u))
      = map_sum id conf_service (fst (f opts u))
   \<and> createServiceFactory (ConfigObject c) w
      = createServiceFactory (ConfigFunction (\<lambda>(opts :: 'o) u. (Inr c, u))) w"
proof -
  have created: "snd (createServiceFactory (ConfigFunction f) w) = w"
    by (simp add: createServiceFactory_def)
  obtain r u' where evaluated: "f opts u = (r, u')"
    by (cases "f opts u")
  have invoked: "snd (factory (ConfigFunction f) opts u) = u'
    \<and> map_sum id isf_service (fst (factory (ConfigFunction f) opts u)) = map_sum id conf_service r"
  proof (cases r)
    case (Inl e)
    with evaluated have "configCallback (ConfigFunction f) opts u = (Inl e, u')"
      by (simp add: configCallback_simps)
    from factory_throws [OF this] Inl show ?thesis by simp
  next
    case (Inr conf)
    with evaluated have "configCallback (ConfigFunction f) opts u = (Inr conf, u')"
      by (simp add: configCallback_simps)
    from factory_fields [OF this] Inr show ?thesis by auto
  qed
  have "factory (ConfigObject c) = factory (ConfigFunction (\<lambda>(opts :: 'o) u. (Inr c, u)))"
    by (intro ext) (simp add: factory_def configCallback_simps)
  then have funneled: "createServiceFactory (ConfigObject c) w
      = createServiceFactory (ConfigFunction (\<lambda>(opts :: 'o) u. (Inr c, u))) w"
    by (simp add: createServiceFactory_def)
  from created invoked evaluated funneled show ?thesis
    by (simp add: builder_call_createServiceFactory)
qed

theorem createServiceFactory_defers_evaluation_witness:
  "snd (createServiceFactory (ConfigFunction db_conf_fn) 0) = 0
   \<and> snd (builder_call (fst (createServiceFactory (ConfigFunction db_conf_fn) 0)) JSUndefined 0) = 1"
  using createServiceFactory_defers_evaluation [where f = db_conf_fn and w = 0
      and opts = JSUndefined and u = 0 and c = db_conf]
  by (simp add: db_conf_fn_def)

end
